theory Spec2Isabelle
  imports Complex_Main "HOL-Library.Word" "HOL-Library.AList"
begin

section \<open>Values of the JavaScript runtime\<close>

text \<open>
  A JavaScript string is a sequence of UTF-16 code units. String literals of the source
  are written \<open>js ''...''\<close>.
\<close>

type_synonym jsstring = "16 word list"

definition js :: "string \<Rightarrow> jsstring" where
  "js cs = map of_char cs"

text \<open>
  \<open>String.prototype.trim\<close> removes the code units of the ECMAScript productions
  WhiteSpace and LineTerminator from both ends: TAB, LF, VT, FF, CR, SP, NBSP, U+1680,
  U+2000 to U+200A, U+2028, U+2029, U+202F, U+205F, U+3000 and U+FEFF.
\<close>

definition is_js_whitespace :: "16 word \<Rightarrow> bool" where
  "is_js_whitespace c \<longleftrightarrow>
     c \<in> {0x9, 0xA, 0xB, 0xC, 0xD, 0x20, 0xA0, 0x1680, 0x2028, 0x2029, 0x202F, 0x205F,
          0x3000, 0xFEFF}
     \<or> (0x2000 \<le> c \<and> c \<le> 0x200A)"

definition trim :: "jsstring \<Rightarrow> jsstring" where
  "trim s = rev (dropWhile is_js_whitespace (rev (dropWhile is_js_whitespace s)))"

text \<open>
  What \<open>JSON.parse\<close> returns. A number carries the value of the parsed double; an
  object is the list of its own properties, read with \<open>map_of\<close>.
\<close>

datatype json =
    JNull
  | JBool bool
  | JNum rat
  | JStr jsstring
  | JArr "json list"
  | JObj "(jsstring \<times> json) list"

text \<open>
  Truthiness, as \<open>!x\<close>, \<open>x || y\<close> and \<open>x && y\<close> test it: \<open>null\<close>, \<open>false\<close>,
  \<open>0\<close> and the empty string are falsy, every array and object is truthy.
\<close>

fun truthy :: "json \<Rightarrow> bool" where
  "truthy JNull = False"
| "truthy (JBool b) = b"
| "truthy (JNum n) = (n \<noteq> 0)"
| "truthy (JStr s) = (s \<noteq> [])"
| "truthy (JArr xs) = True"
| "truthy (JObj kvs) = True"

text \<open>
  \<open>xs[i]\<close> on an array: the element, or \<open>undefined\<close> (here \<open>None\<close>) out of range.
\<close>

definition js_index :: "'a list \<Rightarrow> nat \<Rightarrow> 'a option" where
  "js_index xs i = (if i < length xs then Some (xs ! i) else None)"

text \<open>
  \<open>xs[i] = v\<close> on an array of optional values: in range the slot is overwritten; past
  the end JavaScript extends the array, the slots in between being holes, which read as
  \<open>undefined\<close> and are modelled as \<open>None\<close>.
\<close>

definition js_assign :: "'a option list \<Rightarrow> nat \<Rightarrow> 'a option \<Rightarrow> 'a option list" where
  "js_assign xs i v =
     (if i < length xs then xs[i := v] else xs @ replicate (i - length xs) None @ [v])"

text \<open>The decimal digits of an index, as a template literal prints it.\<close>

fun decimal :: "nat \<Rightarrow> jsstring" where
  "decimal n = (if n < 10 then [of_nat (48 + n)] else decimal (n div 10) @ [of_nat (48 + n mod 10)])"

declare decimal.simps [simp del]

section \<open>The data model (\<open>types.ts\<close>)\<close>

text \<open>
  \<open>Question\<close> is an interface, so at run time a question is whatever object the
  generation service built: the list of its properties. \<open>QuizState\<close> is the record of
  \<open>types.ts\<close>; \<open>sections\<close> and \<open>selectedSection\<close> hold whatever \<open>JSON.parse\<close> delivered
  and \<open>error\<close> whatever \<open>error.message\<close> read (the declared types \<open>string[]\<close>,
  \<open>string | null\<close> and \<open>string\<close> are not checked at run time), \<open>null\<close> and \<open>undefined\<close>
  are \<open>None\<close>.
\<close>

type_synonym Question = "(jsstring \<times> json) list"

record source =
  title :: "jsstring option"
  uri :: "jsstring option"

datatype status = Idle | Fetching_sections | Selecting_section | Generating | Active | Completed

record QuizState =
  examName :: jsstring
  sections :: json
  sources :: "source list"
  selectedSection :: "json option"
  questionCount :: int
  timeRemaining :: int
  isTimerRunning :: bool
  questions :: "Question list"
  currentQuestionIndex :: nat
  score :: nat
  answers :: "nat option list"
  status :: status
  error :: "json option"

section \<open>The service (\<open>services/geminiService\<close>)\<close>

text \<open>
  The request \<open>ai.models.generateContent\<close> is the external collaborator. Its outcome is
  an input of the model: either the promise rejects, or it resolves with a response, of
  which the code reads \<open>text\<close> and the grounding chunks of the first candidate.
  \<open>JSON.parse\<close> is a parameter \<open>JSON_parse\<close> of every function that calls it, \<open>None\<close>
  standing for the \<open>SyntaxError\<close> it throws.

  A promise can reject with any value, and the handlers catch it as \<open>any\<close> and read
  \<open>error.message\<close>. On \<open>undefined\<close> and \<open>null\<close> (\<open>Nullish\<close>) that read throws a
  \<open>TypeError\<close>. Every other value is given by what the read returns (\<open>Thrown\<close>): the
  message of an \<open>Error\<close>, a string; \<open>None\<close> where the value has no such property.
\<close>

datatype rejection = Nullish | Thrown "json option"

record chunk =
  web :: "source option"

record groundingMetadata =
  groundingChunks :: "chunk list option"

record candidate =
  groundingMetadata :: "groundingMetadata option"

record response =
  candidates :: "candidate list option"
  response_text :: "jsstring option"

record SyllabusInfo =
  info_sections :: json
  info_sources :: "source list"

text \<open>\<open>response.text || dflt\<close>: an absent or empty text is replaced.\<close>

definition text_or :: "response \<Rightarrow> jsstring \<Rightarrow> jsstring" where
  "text_or r dflt = (case response_text r of None \<Rightarrow> dflt | Some t \<Rightarrow> if t = [] then dflt else t)"

text \<open>
  \<open>response.candidates?.[0]?.groundingMetadata?.groundingChunks?.map(chunk => chunk.web)
     .filter(web => !!web?.uri) || []\<close>
\<close>

definition has_uri :: "source option \<Rightarrow> bool" where
  "has_uri w = (case w of None \<Rightarrow> False
                | Some s \<Rightarrow> (case uri s of None \<Rightarrow> False | Some u \<Rightarrow> u \<noteq> []))"

definition grounding_sources :: "response \<Rightarrow> source list" where
  "grounding_sources r =
     (case candidates r of
        None \<Rightarrow> []
      | Some cs \<Rightarrow>
          (case js_index cs 0 of
             None \<Rightarrow> []
           | Some c \<Rightarrow>
               (case groundingMetadata c of
                  None \<Rightarrow> []
                | Some g \<Rightarrow>
                    (case groundingChunks g of
                       None \<Rightarrow> []
                     | Some chunks \<Rightarrow> map the (filter has_uri (map web chunks))))))"

definition fallback_sections :: json where
  "fallback_sections =
     JArr [JStr (js ''General Knowledge''), JStr (js ''Core Concepts''),
           JStr (js ''Advanced Topics''), JStr (js ''Practice Set'')]"

text \<open>
  \<open>data.sections\<close> for the parsed \<open>data\<close>: the own property of an object; \<open>undefined\<close>
  (\<open>None\<close>) on an object without it and on arrays, strings, numbers and booleans, none
  of which has a member of that name. On \<open>null\<close> the read throws a \<open>TypeError\<close>, which
  the callers handle before they come here.
\<close>

definition get_prop :: "json \<Rightarrow> jsstring \<Rightarrow> json option" where
  "get_prop d k = (case d of JObj kvs \<Rightarrow> map_of kvs k | _ \<Rightarrow> None)"

text \<open>
  \<open>getExamSections\<close>, from the outcome of the request on. A rejection propagates (the
  \<open>await\<close> is outside the \<open>try\<close>). Inside the \<open>try\<close>, a \<open>SyntaxError\<close> of \<open>JSON.parse\<close>
  and the \<open>TypeError\<close> of \<open>data.sections\<close> on \<open>null\<close> both reach the \<open>catch\<close>.
\<close>

definition getExamSections ::
  "(jsstring \<Rightarrow> json option) \<Rightarrow> rejection + response \<Rightarrow> rejection + SyllabusInfo" where
  "getExamSections JSON_parse outcome =
     (case outcome of
        Inl e \<Rightarrow> Inl e
      | Inr r \<Rightarrow>
          (let srcs = grounding_sources r in
           case JSON_parse (text_or r (js ''{}'')) of
             None \<Rightarrow> Inr \<lparr>info_sections = fallback_sections, info_sources = []\<rparr>
           | Some data \<Rightarrow>
               if data = JNull
               then Inr \<lparr>info_sections = fallback_sections, info_sources = []\<rparr>
               else Inr \<lparr>info_sections =
                           (case get_prop data (js ''sections'') of
                              None \<Rightarrow> fallback_sections
                            | Some v \<Rightarrow> if truthy v then v else fallback_sections),
                         info_sources = take 3 srcs\<rparr>))"

text \<open>
  The object spread \<open>{...q}\<close>: the own enumerable properties of \<open>q\<close>. An array and a
  string spread their elements under their indices; \<open>null\<close>, numbers and booleans have
  none.
\<close>

definition spread :: "json \<Rightarrow> (jsstring \<times> json) list" where
  "spread q =
     (case q of
        JObj kvs \<Rightarrow> kvs
      | JArr xs \<Rightarrow> map (\<lambda>(i, x). (decimal i, x)) (enumerate 0 xs)
      | JStr s \<Rightarrow> map (\<lambda>(i, c). (decimal i, JStr [c])) (enumerate 0 s)
      | _ \<Rightarrow> [])"

definition generation_error :: rejection where
  "generation_error = Thrown (Some (JStr (js ''Failed to generate questions. Please try again.'')))"

text \<open>
  \<open>generateQuestions\<close>, from the outcome of the request on; \<open>count\<close> only enters the
  prompt. \<open>questionsData.map\<close> exists on arrays only: on any other parsed value the call
  throws a \<open>TypeError\<close> inside the \<open>try\<close>, and the \<open>catch\<close> throws the fixed error, as it
  does for a \<open>SyntaxError\<close>.
\<close>

definition generateQuestions ::
  "(jsstring \<Rightarrow> json option) \<Rightarrow> int \<Rightarrow> rejection + response \<Rightarrow> rejection + Question list" where
  "generateQuestions JSON_parse count outcome =
     (case outcome of
        Inl e \<Rightarrow> Inl e
      | Inr r \<Rightarrow>
          (case JSON_parse (text_or r (js ''[]'')) of
             Some (JArr questionsData) \<Rightarrow>
               Inr (map (\<lambda>(index, q). AList.update (js ''id'') (JStr (js ''q-'' @ decimal index)) (spread q))
                        (enumerate 0 questionsData))
           | _ \<Rightarrow> Inl generation_error))"

section \<open>The application (\<open>App\<close>)\<close>

text \<open>
  The component holds three pieces of state: \<open>state\<close>, \<open>selectedOption\<close> and
  \<open>isAnswered\<close>. The two asynchronous handlers suspend at their \<open>await\<close>; the request
  in flight, with the arguments the handler read from the \<open>state\<close> of its render, is
  kept in \<open>pending\<close> until the outcome arrives.
\<close>

datatype call =
    GetExamSections jsstring
  | GenerateQuestions jsstring int json

record App =
  state :: QuizState
  selectedOption :: "nat option"
  isAnswered :: bool
  pending :: "call option"

text \<open>The argument of \<open>useState\<close>; it has no \<open>error\<close> key.\<close>

definition initial_state :: QuizState where
  "initial_state =
     \<lparr>examName = [], sections = JArr [], sources = [], selectedSection = None,
      questionCount = 5, timeRemaining = 0, isTimerRunning = False, questions = [],
      currentQuestionIndex = 0, score = 0, answers = [], status = Idle, error = None\<rparr>"

definition initial_app :: App where
  "initial_app =
     \<lparr>state = initial_state, selectedOption = None, isAnswered = False, pending = None\<rparr>"

text \<open>
  The timer effect. It runs after every render in which \<open>status\<close>, \<open>isTimerRunning\<close>
  or \<open>timeRemaining\<close> changed. In its first branch it sets an interval whose callback
  takes one second off; the resulting change of \<open>timeRemaining\<close> clears the interval and
  runs the effect again, so each run of the branch yields one tick. In its second branch
  it completes the quiz at once. \<open>None\<close>: the effect changes nothing.
\<close>

definition useEffect_timer :: "QuizState \<Rightarrow> QuizState option" where
  "useEffect_timer s =
     (if status s = Active \<and> isTimerRunning s \<and> timeRemaining s > 0
      then Some (s\<lparr>timeRemaining := timeRemaining s - 1\<rparr>)
      else if timeRemaining s = 0 \<and> status s = Active
      then Some (s\<lparr>status := Completed, isTimerRunning := False\<rparr>)
      else None)"

text \<open>
  \<open>handleFetchSections\<close> up to its \<open>await\<close>, and from the outcome on. In the \<open>catch\<close>,
  \<open>error.message\<close> is read inside the updater passed to \<open>setState\<close>. When the promise
  rejected with \<open>undefined\<close> or \<open>null\<close> the updater throws: no state is committed and
  the session stays as it was, waiting; the result is \<open>None\<close>.
\<close>

definition handleFetchSections :: "App \<Rightarrow> App" where
  "handleFetchSections a =
     (let s = state a in
      if trim (examName s) = [] then a
      else a\<lparr>state := s\<lparr>status := Fetching_sections, error := None\<rparr>,
             pending := Some (GetExamSections (examName s))\<rparr>)"

definition handleFetchSections_settled ::
  "(jsstring \<Rightarrow> json option) \<Rightarrow> App \<Rightarrow> rejection + response \<Rightarrow> App option" where
  "handleFetchSections_settled JSON_parse a outcome =
     (case getExamSections JSON_parse outcome of
        Inr syllabus \<Rightarrow>
          Some (a\<lparr>state := (state a)\<lparr>sections := info_sections syllabus,
                                      sources := info_sources syllabus,
                                      status := Selecting_section\<rparr>,
                  pending := None\<rparr>)
      | Inl Nullish \<Rightarrow> None
      | Inl (Thrown message) \<Rightarrow>
          Some (a\<lparr>state := (state a)\<lparr>status := Idle, error := message\<rparr>,
                  pending := None\<rparr>))"

text \<open>
  \<open>handleGenerateQuestions\<close> up to its \<open>await\<close>, and from the outcome on. The timer is
  set from the \<open>questionCount\<close> of the render that started the request, which the
  continuation receives as \<open>count\<close>. The \<open>catch\<close> reads \<open>error.message\<close> as that of
  \<open>handleFetchSections\<close> does.
\<close>

definition handleGenerateQuestions :: "App \<Rightarrow> App" where
  "handleGenerateQuestions a =
     (let s = state a in
      case selectedSection s of
        None \<Rightarrow> a
      | Some sec \<Rightarrow>
          if \<not> truthy sec then a
          else a\<lparr>state := s\<lparr>status := Generating, error := None\<rparr>,
                 pending := Some (GenerateQuestions (examName s) (questionCount s) sec)\<rparr>)"

definition handleGenerateQuestions_settled ::
  "(jsstring \<Rightarrow> json option) \<Rightarrow> App \<Rightarrow> int \<Rightarrow> rejection + response \<Rightarrow> App option" where
  "handleGenerateQuestions_settled JSON_parse a count outcome =
     (case generateQuestions JSON_parse count outcome of
        Inr qs \<Rightarrow>
          Some (a\<lparr>state := (state a)\<lparr>questions := qs,
                                      status := Active,
                                      currentQuestionIndex := 0,
                                      score := 0,
                                      timeRemaining := count * 60,
                                      isTimerRunning := True,
                                      answers := replicate (length qs) None\<rparr>,
                  pending := None\<rparr>)
      | Inl Nullish \<Rightarrow> None
      | Inl (Thrown message) \<Rightarrow>
          Some (a\<lparr>state := (state a)\<lparr>status := Selecting_section, error := message\<rparr>,
                  pending := None\<rparr>))"

text \<open>
  \<open>handleAnswerSubmit\<close>. Reading \<open>correctAnswer\<close> of a question that does not exist
  throws a \<open>TypeError\<close> before any state is set: the handler ends without effect.
  \<open>selectedOption === currentQuestion.correctAnswer\<close> holds when the property is the
  number \<open>selectedOption\<close>.
\<close>

definition handleAnswerSubmit :: "App \<Rightarrow> App" where
  "handleAnswerSubmit a =
     (case selectedOption a of
        None \<Rightarrow> a
      | Some sel \<Rightarrow>
          if isAnswered a then a
          else
            (let s = state a in
             case js_index (questions s) (currentQuestionIndex s) of
               None \<Rightarrow> a
             | Some currentQuestion \<Rightarrow>
                 (let isCorrect = (map_of currentQuestion (js ''correctAnswer'') = Some (JNum (of_nat sel)))
                  in a\<lparr>isAnswered := True,
                       state := s\<lparr>score := (if isCorrect then score s + 1 else score s),
                                  answers := js_assign (answers s) (currentQuestionIndex s) (Some sel)\<rparr>\<rparr>)))"

text \<open>
  \<open>handleNextQuestion\<close>. The test reads the \<open>state\<close> of the render that created the
  handler, here \<open>rendered\<close>; the updaters work on the state at the time of the click,
  \<open>prev\<close>, here \<open>state a\<close>.
\<close>

definition handleNextQuestion :: "QuizState \<Rightarrow> App \<Rightarrow> App" where
  "handleNextQuestion rendered a =
     (let prev = state a in
      if int (currentQuestionIndex rendered) < int (length (questions rendered)) - 1
      then a\<lparr>state := prev\<lparr>currentQuestionIndex := currentQuestionIndex prev + 1\<rparr>,
             selectedOption := None,
             isAnswered := False\<rparr>
      else a\<lparr>state := prev\<lparr>status := Completed\<rparr>\<rparr>)"

definition resetQuiz :: "App \<Rightarrow> App" where
  "resetQuiz a =
     a\<lparr>state :=
         \<lparr>examName = [], sections = JArr [], sources = [], selectedSection = None,
          questionCount = 5, timeRemaining = 0, isTimerRunning = False, questions = [],
          currentQuestionIndex = 0, score = 0, answers = [], status = Idle, error = None\<rparr>,
       selectedOption := None,
       isAnswered := False\<rparr>"

text \<open>The number of option buttons \<open>renderQuiz\<close> draws for the current question.\<close>

definition option_count :: "QuizState \<Rightarrow> nat" where
  "option_count s =
     (case js_index (questions s) (currentQuestionIndex s) of
        None \<Rightarrow> 0
      | Some q \<Rightarrow> (case map_of q (js ''options'') of Some (JArr os) \<Rightarrow> length os | _ \<Rightarrow> 0))"

definition section_buttons :: "QuizState \<Rightarrow> json list" where
  "section_buttons s = (case sections s of JArr xs \<Rightarrow> xs | _ \<Rightarrow> [])"

section \<open>The session as a transition system\<close>

text \<open>
  Everything that can change the state: the controls the renderers offer, the timer
  effect, and the arrival of the outcome of the request in flight. A control exists
  only in the statuses whose renderer draws it, and not while it is \<open>disabled\<close>;
  \<open>step\<close> is \<open>None\<close> where the event cannot happen.
  \<^item> \<open>renderSetup\<close>, status idle: the exam-name input (\<open>ChangeExamName\<close>) and the form
    whose submission calls \<open>handleFetchSections\<close> (\<open>SubmitExamForm\<close>).
  \<^item> \<open>renderSetup\<close>, status selecting_section: one button per element of \<open>sections\<close>
    (\<open>PickSection\<close>), the buttons 5, 10, 20 and 50 (\<open>PickCount\<close>), \<open>Back\<close>, and the start
    button, disabled while \<open>selectedSection\<close> is falsy, which calls
    \<open>handleGenerateQuestions\<close> (\<open>StartMockTest\<close>).
  \<^item> \<open>renderFetchingSections\<close> and \<open>renderGenerating\<close> draw no control; the session
    leaves these statuses when the request settles (\<open>Settled\<close>), unless the updater of
    the \<open>catch\<close> throws: then no state follows.
  \<^item> \<open>renderQuiz\<close>, status active: the pause button (\<open>ToggleTimer\<close>), one button per
    option of the current question, disabled once answered (\<open>SelectOption\<close>), the submit
    button, drawn while unanswered and disabled without a selection (\<open>SubmitAnswer\<close>),
    and the next button, drawn once answered (\<open>NextQuestion\<close>).
  \<^item> The question card is the child of \<open>AnimatePresence\<close> in mode \<open>wait\<close>, with key
    \<open>currentQuestionIndex\<close>. When the next button has advanced the index, the card of
    the question left behind stays on screen for its exit animation, as it was last
    rendered: answered, with the next button and the handler of that render. A click
    on it (\<open>NextQuestionOnExitingCard i\<close>, for the card of an earlier question \<open>i\<close> from
    which the button advanced) runs \<open>handleNextQuestion\<close> with the state of that render.
  \<^item> \<open>renderCompleted\<close>: the button that calls \<open>resetQuiz\<close> (\<open>TryAnotherExam\<close>).
  \<^item> \<open>TimerEffect\<close> is a run of the timer effect that changes the state.
  Rendering itself is not modelled: where a renderer would throw (an active session
  without questions), \<open>step\<close> still admits the events above, so the reachable sessions
  of the model include those of the program.
\<close>

datatype event =
    ChangeExamName jsstring
  | SubmitExamForm
  | PickSection json
  | PickCount int
  | Back
  | StartMockTest
  | Settled "rejection + response"
  | ToggleTimer
  | SelectOption nat
  | SubmitAnswer
  | NextQuestion
  | NextQuestionOnExitingCard nat
  | TimerEffect
  | TryAnotherExam

fun step :: "(jsstring \<Rightarrow> json option) \<Rightarrow> App \<Rightarrow> event \<Rightarrow> App option" where
  "step P a (ChangeExamName v) =
     (if status (state a) = Idle then Some (a\<lparr>state := (state a)\<lparr>examName := v\<rparr>\<rparr>) else None)"
| "step P a SubmitExamForm =
     (if status (state a) = Idle then Some (handleFetchSections a) else None)"
| "step P a (PickSection sec) =
     (if status (state a) = Selecting_section \<and> sec \<in> set (section_buttons (state a))
      then Some (a\<lparr>state := (state a)\<lparr>selectedSection := Some sec\<rparr>\<rparr>) else None)"
| "step P a (PickCount n) =
     (if status (state a) = Selecting_section \<and> n \<in> {5, 10, 20, 50}
      then Some (a\<lparr>state := (state a)\<lparr>questionCount := n\<rparr>\<rparr>) else None)"
| "step P a Back =
     (if status (state a) = Selecting_section
      then Some (a\<lparr>state := (state a)\<lparr>status := Idle, selectedSection := None\<rparr>\<rparr>) else None)"
| "step P a StartMockTest =
     (if status (state a) = Selecting_section
         \<and> (case selectedSection (state a) of None \<Rightarrow> False | Some sec \<Rightarrow> truthy sec)
      then Some (handleGenerateQuestions a) else None)"
| "step P a (Settled outcome) =
     (case pending a of
        None \<Rightarrow> None
      | Some (GetExamSections name) \<Rightarrow> handleFetchSections_settled P a outcome
      | Some (GenerateQuestions name count sec) \<Rightarrow>
          handleGenerateQuestions_settled P a count outcome)"
| "step P a ToggleTimer =
     (if status (state a) = Active
      then Some (a\<lparr>state := (state a)\<lparr>isTimerRunning := \<not> isTimerRunning (state a)\<rparr>\<rparr>) else None)"
| "step P a (SelectOption idx) =
     (if status (state a) = Active \<and> \<not> isAnswered a \<and> idx < option_count (state a)
      then Some (a\<lparr>selectedOption := Some idx\<rparr>) else None)"
| "step P a SubmitAnswer =
     (if status (state a) = Active \<and> \<not> isAnswered a \<and> selectedOption a \<noteq> None
      then Some (handleAnswerSubmit a) else None)"
| "step P a NextQuestion =
     (if status (state a) = Active \<and> isAnswered a
      then Some (handleNextQuestion (state a) a) else None)"
| "step P a (NextQuestionOnExitingCard i) =
     (if status (state a) = Active \<and> i < currentQuestionIndex (state a)
         \<and> int i < int (length (questions (state a))) - 1
      then Some (handleNextQuestion ((state a)\<lparr>currentQuestionIndex := i\<rparr>) a) else None)"
| "step P a TimerEffect =
     (case useEffect_timer (state a) of None \<Rightarrow> None | Some s' \<Rightarrow> Some (a\<lparr>state := s'\<rparr>))"
| "step P a TryAnotherExam =
     (if status (state a) = Completed then Some (resetQuiz a) else None)"

inductive reachable :: "(jsstring \<Rightarrow> json option) \<Rightarrow> App \<Rightarrow> bool"
  for P :: "jsstring \<Rightarrow> json option" where
  reachable_initial: "reachable P initial_app"
| reachable_step: "reachable P a \<Longrightarrow> step P a e = Some a' \<Longrightarrow> reachable P a'"

text \<open>Running a list of events from a state; \<open>None\<close> if one of them cannot happen.\<close>

fun run :: "(jsstring \<Rightarrow> json option) \<Rightarrow> App \<Rightarrow> event list \<Rightarrow> App option" where
  "run P a [] = Some a"
| "run P a (e # es) = (case step P a e of None \<Rightarrow> None | Some a' \<Rightarrow> run P a' es)"

section \<open>An invariant of the reachable sessions\<close>

text \<open>
  \<open>call_matches\<close>: a request is in flight exactly in the two waiting statuses, and a
  generation request carries the question count of the state. \<open>session_inv\<close> collects
  what every reachable session satisfies: the count comes from the menu, the timer is
  within its range, no error is shown while a request is in flight, nothing of a quiz
  exists before a quiz starts, one answer slot per question, the score counts at most
  the questions passed and at most the questions there are, an answered question
  exists, and no slot from the current question on is written unless that question is
  answered. The index may leave the questions: see C4.
\<close>

fun call_matches :: "call option \<Rightarrow> status \<Rightarrow> int \<Rightarrow> bool" where
  "call_matches None st n = (st \<noteq> Fetching_sections \<and> st \<noteq> Generating)"
| "call_matches (Some (GetExamSections name)) st n = (st = Fetching_sections)"
| "call_matches (Some (GenerateQuestions name c sec)) st n = (st = Generating \<and> c = n)"

definition count_ok :: "int \<Rightarrow> bool" where
  "count_ok n \<longleftrightarrow> n \<in> {5, 10, 20, 50}"

definition answered_offset :: "App \<Rightarrow> nat" where
  "answered_offset a = (if isAnswered a then 1 else 0)"

definition session_inv :: "App \<Rightarrow> bool" where
  "session_inv a \<longleftrightarrow>
     count_ok (questionCount (state a))
     \<and> 0 \<le> timeRemaining (state a)
     \<and> timeRemaining (state a) \<le> questionCount (state a) * 60
     \<and> call_matches (pending a) (status (state a)) (questionCount (state a))
     \<and> (status (state a) = Fetching_sections \<or> status (state a) = Generating \<longrightarrow>
          error (state a) = None)
     \<and> (status (state a) \<noteq> Active \<and> status (state a) \<noteq> Completed \<longrightarrow>
          timeRemaining (state a) = 0 \<and> questions (state a) = []
          \<and> \<not> isAnswered a \<and> selectedOption a = None)
     \<and> length (answers (state a)) = length (questions (state a))
     \<and> score (state a) \<le> currentQuestionIndex (state a) + answered_offset a
     \<and> score (state a) \<le> length (questions (state a))
     \<and> (isAnswered a \<longrightarrow>
          currentQuestionIndex (state a) < length (questions (state a))
          \<and> answers (state a) ! currentQuestionIndex (state a) \<noteq> None)
     \<and> (\<forall>j. currentQuestionIndex (state a) + answered_offset a \<le> j \<and> j < length (answers (state a))
            \<longrightarrow> answers (state a) ! j = None)"

section \<open>A sample session\<close>

text \<open>
  Concrete inputs on which the definitions are evaluated: two response texts with the
  values \<open>JSON.parse\<close> gives them, a parser that knows these texts and the literals
  \<open>{}\<close>, \<open>[]\<close> and \<open>[{}]\<close> and reports a syntax error on everything else, and the events of
  one session from the entry of the exam name to the end of a two-question quiz.
\<close>

definition quoted :: "string \<Rightarrow> jsstring" where
  "quoted cs = [0x22] @ js cs @ [0x22]"

definition syllabus_text :: jsstring where
  "syllabus_text =
     js ''{'' @ quoted ''sections'' @ js '':['' @ quoted ''Security Principles'' @ js '',''
       @ quoted ''Access Controls'' @ js '']}''"

definition syllabus_json :: json where
  "syllabus_json =
     JObj [(js ''sections'', JArr [JStr (js ''Security Principles''), JStr (js ''Access Controls'')])]"

definition quiz_text :: jsstring where
  "quiz_text =
     js ''[{'' @ quoted ''text'' @ js '':'' @ quoted ''Q1'' @ js '','' @ quoted ''options'' @ js '':[''
       @ quoted ''a'' @ js '','' @ quoted ''b'' @ js '','' @ quoted ''c'' @ js '','' @ quoted ''d''
       @ js ''],'' @ quoted ''correctAnswer'' @ js '':1,'' @ quoted ''explanation'' @ js '':''
       @ quoted ''x'' @ js ''},{'' @ quoted ''text'' @ js '':'' @ quoted ''Q2'' @ js '',''
       @ quoted ''options'' @ js '':['' @ quoted ''a'' @ js '','' @ quoted ''b'' @ js '',''
       @ quoted ''c'' @ js '','' @ quoted ''d'' @ js ''],'' @ quoted ''correctAnswer'' @ js '':0,''
       @ quoted ''explanation'' @ js '':'' @ quoted ''y'' @ js ''}]''"

definition abcd :: json where
  "abcd = JArr [JStr (js ''a''), JStr (js ''b''), JStr (js ''c''), JStr (js ''d'')]"

definition quiz_json :: json where
  "quiz_json =
     JArr [JObj [(js ''text'', JStr (js ''Q1'')), (js ''options'', abcd),
                 (js ''correctAnswer'', JNum 1), (js ''explanation'', JStr (js ''x''))],
           JObj [(js ''text'', JStr (js ''Q2'')), (js ''options'', abcd),
                 (js ''correctAnswer'', JNum 0), (js ''explanation'', JStr (js ''y''))]]"

definition sample_parse :: "jsstring \<Rightarrow> json option" where
  "sample_parse t =
     (if t = syllabus_text then Some syllabus_json
      else if t = quiz_text then Some quiz_json
      else if t = js ''{}'' then Some (JObj [])
      else if t = js ''[]'' then Some (JArr [])
      else if t = js ''[{}]'' then Some (JArr [JObj []])
      else None)"

definition responded :: "jsstring \<Rightarrow> rejection + response" where
  "responded t = Inr \<lparr>candidates = None, response_text = Some t\<rparr>"

definition to_selecting :: "event list" where
  "to_selecting = [ChangeExamName (js ''CC isc2''), SubmitExamForm, Settled (responded syllabus_text)]"

definition to_generating :: "event list" where
  "to_generating = to_selecting @ [PickSection (JStr (js ''Access Controls'')), StartMockTest]"

definition to_active :: "event list" where
  "to_active = to_generating @ [Settled (responded quiz_text)]"

definition to_answered :: "event list" where
  "to_answered = to_active @ [TimerEffect, SelectOption 1, SubmitAnswer]"

definition to_last_answered :: "event list" where
  "to_last_answered = to_answered @ [NextQuestion, SelectOption 2, SubmitAnswer]"

definition sample_questions :: "Question list" where
  "sample_questions =
     [[(js ''text'', JStr (js ''Q1'')), (js ''options'', abcd), (js ''correctAnswer'', JNum 1),
       (js ''explanation'', JStr (js ''x'')), (js ''id'', JStr (js ''q-0''))],
      [(js ''text'', JStr (js ''Q2'')), (js ''options'', abcd), (js ''correctAnswer'', JNum 0),
       (js ''explanation'', JStr (js ''y'')), (js ''id'', JStr (js ''q-1''))]]"

definition selecting_state :: QuizState where
  "selecting_state =
     \<lparr>examName = js ''CC isc2'',
      sections = JArr [JStr (js ''Security Principles''), JStr (js ''Access Controls'')],
      sources = [], selectedSection = None, questionCount = 5, timeRemaining = 0,
      isTimerRunning = False, questions = [], currentQuestionIndex = 0, score = 0,
      answers = [], status = Selecting_section, error = None\<rparr>"

definition generating_app :: App where
  "generating_app =
     \<lparr>state = selecting_state\<lparr>selectedSection := Some (JStr (js ''Access Controls'')),
                               status := Generating\<rparr>,
      selectedOption = None, isAnswered = False,
      pending = Some (GenerateQuestions (js ''CC isc2'') 5 (JStr (js ''Access Controls'')))\<rparr>"

definition active_state :: QuizState where
  "active_state =
     selecting_state\<lparr>selectedSection := Some (JStr (js ''Access Controls'')),
                     questions := sample_questions, answers := [None, None],
                     timeRemaining := 300, isTimerRunning := True, status := Active\<rparr>"

definition answered_app :: App where
  "answered_app =
     \<lparr>state = active_state\<lparr>timeRemaining := 299, score := 1, answers := [Some 1, None]\<rparr>,
      selectedOption = Some 1, isAnswered = True, pending = None\<rparr>"

definition completed_app :: App where
  "completed_app =
     \<lparr>state = active_state\<lparr>timeRemaining := 299, score := 1, answers := [Some 1, Some 2],
                            currentQuestionIndex := 1, status := Completed\<rparr>,
      selectedOption = Some 2, isAnswered = True, pending = None\<rparr>"

definition last_answered_app :: App where
  "last_answered_app = completed_app\<lparr>state := (state completed_app)\<lparr>status := Active\<rparr>\<rparr>"

definition second_question_app :: App where
  "second_question_app =
     answered_app\<lparr>state := (state answered_app)\<lparr>currentQuestionIndex := 1\<rparr>,
                  selectedOption := None, isAnswered := False\<rparr>"

definition expired_app :: App where
  "expired_app = answered_app\<lparr>state := (state answered_app)\<lparr>timeRemaining := 0\<rparr>\<rparr>"

definition timed_out_app :: App where
  "timed_out_app =
     expired_app\<lparr>state := (state expired_app)\<lparr>status := Completed, isTimerRunning := False\<rparr>\<rparr>"

definition to_fetching :: "event list" where
  "to_fetching = [ChangeExamName (js ''CC isc2''), SubmitExamForm]"

definition fetching_app :: App where
  "fetching_app =
     \<lparr>state = initial_state\<lparr>examName := js ''CC isc2'', status := Fetching_sections\<rparr>,
      selectedOption = None, isAnswered = False,
      pending = Some (GetExamSections (js ''CC isc2''))\<rparr>"

definition cited :: "string \<Rightarrow> chunk" where
  "cited u = \<lparr>web = Some \<lparr>title = Some (js ''Exam outline''), uri = Some (js u)\<rparr>\<rparr>"

definition grounded :: "jsstring \<Rightarrow> response" where
  "grounded t =
     \<lparr>candidates = Some [\<lparr>groundingMetadata = Some \<lparr>groundingChunks =
         Some [cited ''https://a.example'', \<lparr>web = None\<rparr>, cited ''https://b.example'',
               cited ''https://c.example'', cited ''https://d.example'']\<rparr>\<rparr>],
      response_text = Some t\<rparr>"

definition blank_name_app :: App where
  "blank_name_app = initial_app\<lparr>state := initial_state\<lparr>examName := js ''  ''\<rparr>\<rparr>"

definition lookup_failed_app :: App where
  "lookup_failed_app =
     initial_app\<lparr>state := initial_state\<lparr>examName := js ''CC isc2'',
                                         error := Some (JStr (js ''Network error''))\<rparr>\<rparr>"

definition to_lookup_failed :: "event list" where
  "to_lookup_failed =
     to_fetching @ [Settled (Inl (Thrown (Some (JStr (js ''Network error'')))))]"

section \<open>Preservation of the invariant\<close>

lemma count_ok_nonneg: "count_ok n \<Longrightarrow> 0 \<le> n * 60"
  by (auto simp: count_ok_def)

lemma call_matches_settled [simp]:
  "st \<noteq> Fetching_sections \<Longrightarrow> st \<noteq> Generating \<Longrightarrow> call_matches p st n \<longleftrightarrow> p = None"
  by (induction p st n rule: call_matches.induct) auto

lemmas inv_defs = session_inv_def answered_offset_def

lemma inv_initial: "session_inv initial_app"
  by (simp add: count_ok_def inv_defs initial_app_def initial_state_def)

lemma inv_ChangeExamName:
  "session_inv a \<Longrightarrow> session_inv (a\<lparr>state := (state a)\<lparr>examName := v\<rparr>\<rparr>)"
  by (simp add: inv_defs)

lemma inv_handleFetchSections:
  "session_inv a \<Longrightarrow> status (state a) = Idle \<Longrightarrow> session_inv (handleFetchSections a)"
  by (auto simp: inv_defs handleFetchSections_def Let_def)

lemma inv_PickSection:
  "session_inv a \<Longrightarrow> session_inv (a\<lparr>state := (state a)\<lparr>selectedSection := x\<rparr>\<rparr>)"
  by (simp add: inv_defs)

lemma inv_PickCount:
  assumes "session_inv a" and "status (state a) = Selecting_section" and "n \<in> {5, 10, 20, 50}"
  shows "session_inv (a\<lparr>state := (state a)\<lparr>questionCount := n\<rparr>\<rparr>)"
proof -
  have "count_ok n" using assms(3) by (simp add: count_ok_def)
  then show ?thesis using assms(1,2) count_ok_nonneg [of n]
    by (auto simp: inv_defs)
qed

lemma inv_Back:
  "session_inv a \<Longrightarrow> status (state a) = Selecting_section \<Longrightarrow>
   session_inv (a\<lparr>state := (state a)\<lparr>status := Idle, selectedSection := None\<rparr>\<rparr>)"
  by (auto simp: inv_defs)

lemma inv_handleGenerateQuestions:
  "session_inv a \<Longrightarrow> status (state a) = Selecting_section \<Longrightarrow>
   session_inv (handleGenerateQuestions a)"
  by (auto simp: inv_defs handleGenerateQuestions_def Let_def split: option.splits)

lemma inv_handleFetchSections_settled:
  "session_inv a \<Longrightarrow> pending a = Some (GetExamSections name) \<Longrightarrow>
   handleFetchSections_settled P a outcome = Some a' \<Longrightarrow> session_inv a'"
  by (auto simp: inv_defs handleFetchSections_settled_def split: sum.splits rejection.splits)

lemma inv_handleGenerateQuestions_settled:
  "session_inv a \<Longrightarrow> pending a = Some (GenerateQuestions name c sec) \<Longrightarrow>
   handleGenerateQuestions_settled P a c outcome = Some a' \<Longrightarrow> session_inv a'"
  by (auto simp: inv_defs handleGenerateQuestions_settled_def count_ok_nonneg
      split: sum.splits rejection.splits)

lemma inv_ToggleTimer:
  "session_inv a \<Longrightarrow> status (state a) = Active \<Longrightarrow>
   session_inv (a\<lparr>state := (state a)\<lparr>isTimerRunning := b\<rparr>\<rparr>)"
  by (simp add: inv_defs)

lemma inv_SelectOption:
  "session_inv a \<Longrightarrow> status (state a) = Active \<Longrightarrow> session_inv (a\<lparr>selectedOption := x\<rparr>)"
  by (simp add: inv_defs)

lemma inv_handleAnswerSubmit:
  "session_inv a \<Longrightarrow> status (state a) = Active \<Longrightarrow> session_inv (handleAnswerSubmit a)"
  by (auto simp: inv_defs handleAnswerSubmit_def Let_def js_index_def js_assign_def
      split: option.splits if_splits)

lemma inv_handleNextQuestion:
  "session_inv a \<Longrightarrow> status (state a) = Active \<Longrightarrow> session_inv (handleNextQuestion rendered a)"
  by (auto simp: inv_defs handleNextQuestion_def Let_def split: if_splits)

lemma inv_useEffect_timer:
  "session_inv a \<Longrightarrow> useEffect_timer (state a) = Some s' \<Longrightarrow> session_inv (a\<lparr>state := s'\<rparr>)"
  by (auto simp: inv_defs useEffect_timer_def split: if_splits)

lemma inv_resetQuiz:
  "session_inv a \<Longrightarrow> status (state a) = Completed \<Longrightarrow> session_inv (resetQuiz a)"
  by (auto simp: inv_defs resetQuiz_def count_ok_def)

lemma inv_step: "session_inv a \<Longrightarrow> step P a e = Some a' \<Longrightarrow> session_inv a'"
proof (induction P a e rule: step.induct)
  case (7 P a outcome)
  then show ?case
    by (auto split: option.splits call.splits
        intro: inv_handleFetchSections_settled inv_handleGenerateQuestions_settled)
next
  case (13 P a)
  then show ?case
    by (auto split: option.splits intro: inv_useEffect_timer)
qed (auto split: if_splits
      intro: inv_ChangeExamName inv_handleFetchSections inv_PickSection inv_PickCount inv_Back
        inv_handleGenerateQuestions inv_ToggleTimer inv_SelectOption inv_handleAnswerSubmit
        inv_handleNextQuestion inv_resetQuiz)

lemma reachable_inv: "reachable P a \<Longrightarrow> session_inv a"
  by (induction rule: reachable.induct) (auto intro: inv_initial inv_step)

lemma run_append:
  "run P a (es @ es') = (case run P a es of None \<Rightarrow> None | Some a' \<Rightarrow> run P a' es')"
  by (induction es arbitrary: a) (auto split: option.splits)

lemma run_reachable: "reachable P a \<Longrightarrow> run P a es = Some a' \<Longrightarrow> reachable P a'"
  by (induction es arbitrary: a) (auto split: option.splits intro: reachable_step)

section \<open>The sample session, evaluated\<close>

lemmas sample_defs = to_selecting_def to_generating_def to_active_def to_answered_def
  to_last_answered_def responded_def sample_parse_def syllabus_text_def syllabus_json_def
  quiz_text_def quiz_json_def quoted_def js_def abcd_def

lemmas sample_states = generating_app_def answered_app_def completed_app_def
  last_answered_app_def active_state_def selecting_state_def sample_questions_def
  initial_app_def initial_state_def

lemmas handler_defs = handleFetchSections_def handleFetchSections_settled_def
  handleGenerateQuestions_def handleGenerateQuestions_settled_def handleAnswerSubmit_def
  handleNextQuestion_def useEffect_timer_def option_count_def section_buttons_def
  getExamSections_def generateQuestions_def text_or_def grounding_sources_def get_prop_def
  spread_def trim_def is_js_whitespace_def js_index_def js_assign_def Let_def decimal.simps


lemma run_to_answered: "run sample_parse initial_app to_answered = Some answered_app"
  by (simp add: sample_defs handler_defs sample_states)

lemma run_to_last_answered:
  "run sample_parse initial_app to_last_answered = Some last_answered_app"
  by (simp add: sample_defs handler_defs sample_states)


lemma reachable_answered: "reachable sample_parse answered_app"
  by (rule run_reachable [OF reachable_initial run_to_answered])

lemma reachable_last_answered: "reachable sample_parse last_answered_app"
  by (rule run_reachable [OF reachable_initial run_to_last_answered])

lemma reachable_completed: "reachable sample_parse completed_app"
proof -
  have "step sample_parse last_answered_app NextQuestion = Some completed_app"
    by (simp add: sample_states handler_defs)
  then show ?thesis
    by (rule reachable_step [OF reachable_last_answered])
qed

text \<open>
  A running timer with \<open>n\<close> seconds left reaches zero after \<open>n\<close> runs of the effect, the
  session still active.
\<close>

lemma run_ticks:
  "status (state a) = Active \<Longrightarrow> isTimerRunning (state a) \<Longrightarrow> timeRemaining (state a) = int n \<Longrightarrow>
   run P a (replicate n TimerEffect) = Some (a\<lparr>state := (state a)\<lparr>timeRemaining := 0\<rparr>\<rparr>)"
proof (induction n arbitrary: a)
  case 0
  then have "(state a)\<lparr>timeRemaining := 0\<rparr> = state a" by simp
  then show ?case by simp
next
  case (Suc n)
  let ?b = "a\<lparr>state := (state a)\<lparr>timeRemaining := int n\<rparr>\<rparr>"
  from Suc.prems have "step P a TimerEffect = Some ?b"
    by (simp add: useEffect_timer_def)
  moreover from Suc.prems
  have "run P ?b (replicate n TimerEffect) = Some (?b\<lparr>state := (state ?b)\<lparr>timeRemaining := 0\<rparr>\<rparr>)"
    by (intro Suc.IH) simp_all
  ultimately show ?case by simp
qed

lemma reachable_expired: "reachable sample_parse expired_app"
proof -
  have "run sample_parse answered_app (replicate 299 TimerEffect) = Some expired_app"
    unfolding expired_app_def
    by (rule run_ticks) (simp_all add: sample_states)
  with reachable_answered show ?thesis by (rule run_reachable)
qed

lemma run_to_fetching: "run sample_parse initial_app to_fetching = Some fetching_app"
  by (simp add: to_fetching_def fetching_app_def sample_defs handler_defs sample_states)

lemma reachable_fetching: "reachable sample_parse fetching_app"
  by (rule run_reachable [OF reachable_initial run_to_fetching])

lemma run_to_lookup_failed: "run sample_parse initial_app to_lookup_failed = Some lookup_failed_app"
  by (simp add: to_lookup_failed_def to_fetching_def lookup_failed_app_def sample_defs
      handler_defs sample_states)

section \<open>Steps of an active and of a completed session\<close>

lemma active_no_pending: "session_inv a \<Longrightarrow> status (state a) = Active \<Longrightarrow> pending a = None"
  by (simp add: inv_defs)

lemma completed_no_pending:
  "session_inv a \<Longrightarrow> status (state a) = Completed \<Longrightarrow> pending a = None"
  by (simp add: inv_defs)

lemma active_step_time:
  assumes "pending a = None" and "status (state a) = Active" and "step P a e = Some a'"
  shows "timeRemaining (state a') = timeRemaining (state a)
         \<or> (e = TimerEffect \<and> isTimerRunning (state a) \<and> 0 < timeRemaining (state a)
             \<and> timeRemaining (state a') = timeRemaining (state a) - 1)"
  using assms
  by (cases e)
     (auto simp: handleAnswerSubmit_def handleNextQuestion_def useEffect_timer_def Let_def
       split: if_splits option.splits)

lemma completed_step:
  assumes "pending a = None" and "status (state a) = Completed" and "step P a e = Some a'"
  shows "e = TryAnotherExam \<and> status (state a') = Idle"
  using assms
  by (cases e) (auto simp: useEffect_timer_def resetQuiz_def split: if_splits option.splits)

lemma call_matches_waiting:
  "call_matches p st n \<Longrightarrow>
     (st = Fetching_sections \<longrightarrow> (\<exists>name. p = Some (GetExamSections name)))
     \<and> (st = Generating \<longrightarrow> (\<exists>name sec. p = Some (GenerateQuestions name n sec)))"
  by (induction p st n rule: call_matches.induct) auto

lemma fetching_pending:
  "session_inv a \<Longrightarrow> status (state a) = Fetching_sections \<Longrightarrow>
   \<exists>name. pending a = Some (GetExamSections name)"
  using call_matches_waiting [of "pending a" "status (state a)" "questionCount (state a)"]
  by (simp add: inv_defs)


section \<open>Properties of the session\<close>

text \<open>
  C1. In every reachable session \<open>timeRemaining\<close> lies within \<open>[0, questionCount * 60]\<close>.
  While the session is active, a transition either leaves \<open>timeRemaining\<close> as it is or
  is the timer tick, which takes exactly 1 off and happens only with \<open>isTimerRunning\<close>
  true and \<open>timeRemaining > 0\<close>; under these conditions the tick does happen. When
  \<open>timeRemaining\<close> is 0 in an active session, the timer effect forces the session to
  completed with \<open>isTimerRunning\<close> false, \<open>timeRemaining\<close> staying 0. This happens once:
  the only transition of a completed session is the reset, which leads to idle.
\<close>

theorem timer_bounds_and_forced_completion:
  assumes "reachable P a"
  shows "0 \<le> timeRemaining (state a)
       \<and> timeRemaining (state a) \<le> questionCount (state a) * 60
       \<and> (\<forall>e a'. status (state a) = Active \<and> step P a e = Some a' \<longrightarrow>
             timeRemaining (state a') = timeRemaining (state a)
             \<or> (e = TimerEffect \<and> isTimerRunning (state a) \<and> 0 < timeRemaining (state a)
                 \<and> timeRemaining (state a') = timeRemaining (state a) - 1))
       \<and> (status (state a) = Active \<and> isTimerRunning (state a) \<and> 0 < timeRemaining (state a) \<longrightarrow>
             step P a TimerEffect
               = Some (a\<lparr>state := (state a)\<lparr>timeRemaining := timeRemaining (state a) - 1\<rparr>\<rparr>))
       \<and> (status (state a) = Active \<and> timeRemaining (state a) = 0 \<longrightarrow>
             step P a TimerEffect
               = Some (a\<lparr>state := (state a)\<lparr>status := Completed, isTimerRunning := False\<rparr>\<rparr>))
       \<and> (\<forall>e a'. status (state a) = Completed \<and> step P a e = Some a' \<longrightarrow>
             e = TryAnotherExam \<and> status (state a') = Idle)"
proof -
  from assms have inv: "session_inv a" by (rule reachable_inv)
  have bounds: "0 \<le> timeRemaining (state a)"
      "timeRemaining (state a) \<le> questionCount (state a) * 60"
    using inv by (simp_all add: inv_defs)
  have change: "timeRemaining (state a') = timeRemaining (state a)
             \<or> (e = TimerEffect \<and> isTimerRunning (state a) \<and> 0 < timeRemaining (state a)
                 \<and> timeRemaining (state a') = timeRemaining (state a) - 1)"
    if "status (state a) = Active" and "step P a e = Some a'" for e a'
    using active_no_pending [OF inv that(1)] that by (rule active_step_time)
  have tick: "step P a TimerEffect
               = Some (a\<lparr>state := (state a)\<lparr>timeRemaining := timeRemaining (state a) - 1\<rparr>\<rparr>)"
    if "status (state a) = Active \<and> isTimerRunning (state a) \<and> 0 < timeRemaining (state a)"
    using that by (simp add: useEffect_timer_def)
  have zero: "step P a TimerEffect
               = Some (a\<lparr>state := (state a)\<lparr>status := Completed, isTimerRunning := False\<rparr>\<rparr>)"
    if "status (state a) = Active \<and> timeRemaining (state a) = 0"
    using that by (simp add: useEffect_timer_def)
  have once: "e = TryAnotherExam \<and> status (state a') = Idle"
    if "status (state a) = Completed" and "step P a e = Some a'" for e a'
    using completed_no_pending [OF inv that(1)] that by (rule completed_step)
  from bounds change tick zero once show ?thesis by blast
qed

theorem timer_bounds_and_forced_completion_witness:
  "reachable sample_parse answered_app
   \<and> timeRemaining (state answered_app) = 299
   \<and> questionCount (state answered_app) * 60 = 300
   \<and> step sample_parse answered_app TimerEffect
       = Some (answered_app\<lparr>state := (state answered_app)\<lparr>timeRemaining := 298\<rparr>\<rparr>)
   \<and> reachable sample_parse expired_app
   \<and> status (state expired_app) = Active
   \<and> timeRemaining (state expired_app) = 0
   \<and> step sample_parse expired_app TimerEffect = Some timed_out_app
   \<and> status (state timed_out_app) = Completed
   \<and> isTimerRunning (state timed_out_app) = False
   \<and> timeRemaining (state timed_out_app) = 0
   \<and> step sample_parse timed_out_app TimerEffect = None"
proof -
  have ticking: "status (state answered_app) = Active \<and> isTimerRunning (state answered_app)
      \<and> 0 < timeRemaining (state answered_app)"
    and expired: "status (state expired_app) = Active \<and> timeRemaining (state expired_app) = 0"
    by (simp_all add: sample_states expired_app_def)
  from timer_bounds_and_forced_completion [OF reachable_answered] ticking
  have "step sample_parse answered_app TimerEffect
       = Some (answered_app\<lparr>state := (state answered_app)
                 \<lparr>timeRemaining := timeRemaining (state answered_app) - 1\<rparr>\<rparr>)"
    by blast
  moreover from timer_bounds_and_forced_completion [OF reachable_expired] expired
  have "step sample_parse expired_app TimerEffect = Some timed_out_app"
    unfolding timed_out_app_def by blast
  moreover have "step sample_parse timed_out_app TimerEffect = None"
    by (simp add: timed_out_app_def expired_app_def sample_states useEffect_timer_def)
  ultimately show ?thesis
    using reachable_answered reachable_expired
    by (simp add: timed_out_app_def expired_app_def sample_states)
qed

text \<open>
  C2. In a reachable active session whose current question has its answer recorded (the
  slot of \<open>answers\<close> at \<open>currentQuestionIndex\<close> holds an option), \<open>handleAnswerSubmit\<close>
  returns the session as it was: no slot is rewritten and the score is not changed. The
  handler tests \<open>isAnswered\<close>, which in a reachable session is true whenever that slot is
  written.
\<close>

theorem resubmission_is_noop:
  assumes "reachable P a"
    and "status (state a) = Active"
    and "js_index (answers (state a)) (currentQuestionIndex (state a)) = Some (Some v)"
  shows "handleAnswerSubmit a = a"
proof -
  from assms(1) have inv: "session_inv a" by (rule reachable_inv)
  from assms(3) have slot: "currentQuestionIndex (state a) < length (answers (state a))"
      "answers (state a) ! currentQuestionIndex (state a) = Some v"
    by (auto simp: js_index_def split: if_splits)
  have "isAnswered a"
  proof (rule ccontr)
    assume "\<not> isAnswered a"
    with inv slot(1) have "answers (state a) ! currentQuestionIndex (state a) = None"
      by (simp add: inv_defs)
    with slot(2) show False by simp
  qed
  then show ?thesis
    by (simp add: handleAnswerSubmit_def split: option.splits)
qed

theorem resubmission_is_noop_witness:
  "reachable sample_parse answered_app
   \<and> status (state answered_app) = Active
   \<and> js_index (answers (state answered_app)) (currentQuestionIndex (state answered_app))
       = Some (Some 1)
   \<and> selectedOption answered_app = Some 1
   \<and> handleAnswerSubmit answered_app = answered_app"
proof -
  have slot: "js_index (answers (state answered_app)) (currentQuestionIndex (state answered_app))
       = Some (Some 1)"
    and act: "status (state answered_app) = Active"
    and sel: "selectedOption answered_app = Some 1"
    by (simp_all add: sample_states js_index_def)
  from resubmission_is_noop [OF reachable_answered act slot] reachable_answered act slot sel
  show ?thesis by simp
qed

text \<open>
  C3. In every reachable session, while the status is active the score is at most
  \<open>currentQuestionIndex + 1\<close>, and when the status is completed the score is at most
  the number of questions.
\<close>

theorem score_bounded:
  assumes "reachable P a"
  shows "(status (state a) = Active \<longrightarrow> score (state a) \<le> currentQuestionIndex (state a) + 1)
       \<and> (status (state a) = Completed \<longrightarrow> score (state a) \<le> length (questions (state a)))"
proof -
  from assms have inv: "session_inv a" by (rule reachable_inv)
  then have "score (state a) \<le> currentQuestionIndex (state a) + 1"
    by (simp add: inv_defs split: if_splits)
  moreover have "score (state a) \<le> length (questions (state a))"
  proof (cases "questions (state a) = []")
    case True
    with inv show ?thesis by (auto simp: inv_defs)
  next
    case False
    with inv show ?thesis by (simp add: inv_defs split: if_splits)
  qed
  ultimately show ?thesis by simp
qed

theorem score_bounded_witness:
  "reachable sample_parse answered_app
   \<and> status (state answered_app) = Active
   \<and> currentQuestionIndex (state answered_app) = 0
   \<and> score (state answered_app) \<le> 0 + 1
   \<and> reachable sample_parse completed_app
   \<and> status (state completed_app) = Completed
   \<and> length (questions (state completed_app)) = 2
   \<and> score (state completed_app) \<le> 2"
  using score_bounded [OF reachable_answered] score_bounded [OF reachable_completed]
    reachable_answered reachable_completed
  by (simp add: sample_states)

text \<open>
  C4. The claim is what the test in \<open>handleNextQuestion\<close> is there for, and the code
  misses it: the test reads the index of the render that created the handler, the
  increment works on the index at the time of the click. In the sample session of two
  questions the first is answered and the next button advances to the second, so that
  \<open>currentQuestionIndex\<close> equals \<open>questions.length - 1\<close>. A click on the next button of
  the exiting card then advances once more: the session stays active with
  \<open>currentQuestionIndex\<close> 2, the number of questions, where the claim has it completed
  with the index unchanged and never above 1.
\<close>

theorem next_click_on_exiting_card_passes_last_question:
  "run sample_parse initial_app (to_answered @ [NextQuestion]) = Some second_question_app
   \<and> length (questions (state second_question_app)) = 2
   \<and> int (currentQuestionIndex (state second_question_app))
       = int (length (questions (state second_question_app))) - 1
   \<and> map_option (status \<circ> state)
         (step sample_parse second_question_app (NextQuestionOnExitingCard 0)) = Some Active
   \<and> map_option (currentQuestionIndex \<circ> state)
         (step sample_parse second_question_app (NextQuestionOnExitingCard 0)) = Some 2
   \<and> map_option (length \<circ> questions \<circ> state)
         (step sample_parse second_question_app (NextQuestionOnExitingCard 0)) = Some 2"
proof -
  have "step sample_parse answered_app NextQuestion = Some second_question_app"
    by (simp add: second_question_app_def answered_app_def active_state_def
        selecting_state_def sample_questions_def handleNextQuestion_def Let_def)
  then have "run sample_parse initial_app (to_answered @ [NextQuestion]) = Some second_question_app"
    by (simp add: run_append run_to_answered)
  then show ?thesis
    by (simp add: second_question_app_def answered_app_def active_state_def
        selecting_state_def sample_questions_def handleNextQuestion_def Let_def)
qed

text \<open>
  C5. The reset, applied to a session in any status, returns every field to the value
  the component starts with: \<open>examName\<close> empty; \<open>sections\<close>, \<open>sources\<close>, \<open>questions\<close> and
  \<open>answers\<close> empty; \<open>selectedSection\<close> cleared; \<open>questionCount\<close> 5; \<open>timeRemaining\<close> 0;
  \<open>isTimerRunning\<close> false; \<open>currentQuestionIndex\<close> 0; \<open>score\<close> 0; \<open>status\<close> idle; \<open>error\<close>
  cleared. The state after the reset is the initial state of \<open>useState\<close>, and the
  selection of the quiz view is cleared with it.
\<close>

theorem resetQuiz_restores_initial_values:
  "examName (state (resetQuiz a)) = []
   \<and> sections (state (resetQuiz a)) = JArr []
   \<and> sources (state (resetQuiz a)) = []
   \<and> questions (state (resetQuiz a)) = []
   \<and> answers (state (resetQuiz a)) = []
   \<and> selectedSection (state (resetQuiz a)) = None
   \<and> questionCount (state (resetQuiz a)) = 5
   \<and> timeRemaining (state (resetQuiz a)) = 0
   \<and> isTimerRunning (state (resetQuiz a)) = False
   \<and> currentQuestionIndex (state (resetQuiz a)) = 0
   \<and> score (state (resetQuiz a)) = 0
   \<and> status (state (resetQuiz a)) = Idle
   \<and> error (state (resetQuiz a)) = None
   \<and> state (resetQuiz a) = initial_state
   \<and> selectedOption (resetQuiz a) = None
   \<and> isAnswered (resetQuiz a) = False"
  by (simp add: resetQuiz_def initial_state_def)





text \<open>
  C7. When the response of the syllabus lookup fails to parse, or parses to a value
  with no \<open>sections\<close> key, \<open>getExamSections\<close> returns the fixed list of the four
  sections General Knowledge, Core Concepts, Advanced Topics, Practice Set, and a
  reachable session that is fetching advances to selecting_section with that list as
  its sections and with no \<open>error\<close>.
\<close>

theorem missing_sections_fall_back:
  assumes "reachable P a" and "status (state a) = Fetching_sections"
    and "P (text_or r (js ''{}'')) = None
         \<or> (\<exists>d. P (text_or r (js ''{}'')) = Some d \<and> get_prop d (js ''sections'') = None)"
  shows "(\<exists>srcs. getExamSections P (Inr r)
            = Inr \<lparr>info_sections = fallback_sections, info_sources = srcs\<rparr>)
       \<and> fallback_sections
           = JArr [JStr (js ''General Knowledge''), JStr (js ''Core Concepts''),
                   JStr (js ''Advanced Topics''), JStr (js ''Practice Set'')]
       \<and> (\<exists>a'. step P a (Settled (Inr r)) = Some a'
              \<and> status (state a') = Selecting_section
              \<and> sections (state a') = fallback_sections
              \<and> error (state a') = None)"
proof -
  from assms(3) have "\<exists>srcs. getExamSections P (Inr r)
      = Inr \<lparr>info_sections = fallback_sections, info_sources = srcs\<rparr>"
    by (auto simp: getExamSections_def Let_def)
  then obtain srcs where
    info: "getExamSections P (Inr r) = Inr \<lparr>info_sections = fallback_sections, info_sources = srcs\<rparr>"
    by blast
  from assms(1) have inv: "session_inv a" by (rule reachable_inv)
  with assms(2) have noerror: "error (state a) = None"
    by (simp add: inv_defs)
  from inv assms(2) obtain name where "pending a = Some (GetExamSections name)"
    using fetching_pending by blast
  with info have "step P a (Settled (Inr r))
      = Some (a\<lparr>state := (state a)\<lparr>sections := fallback_sections, sources := srcs,
                                   status := Selecting_section\<rparr>,
                pending := None\<rparr>)"
    by (simp add: handleFetchSections_settled_def)
  with info noerror show ?thesis
    by (simp add: fallback_sections_def)
qed


theorem missing_sections_fall_back_witness:
  "reachable sample_parse fetching_app
   \<and> status (state fetching_app) = Fetching_sections
   \<and> sample_parse (text_or (grounded (js ''{}'')) (js ''{}'')) = Some (JObj [])
   \<and> get_prop (JObj []) (js ''sections'') = None
   \<and> info_sections (projr (getExamSections sample_parse (Inr (grounded (js ''{}''))))) = fallback_sections
   \<and> map_option (status \<circ> state) (step sample_parse fetching_app (Settled (Inr (grounded (js ''{}'')))))
       = Some Selecting_section
   \<and> map_option (sections \<circ> state) (step sample_parse fetching_app (Settled (Inr (grounded (js ''{}'')))))
       = Some fallback_sections
   \<and> map_option (error \<circ> state) (step sample_parse fetching_app (Settled (Inr (grounded (js ''{}'')))))
       = Some None
   \<and> sample_parse (text_or (grounded (js ''<html>'')) (js ''{}'')) = None
   \<and> info_sections (projr (getExamSections sample_parse (Inr (grounded (js ''<html>''))))) = fallback_sections
   \<and> map_option (status \<circ> state) (step sample_parse fetching_app (Settled (Inr (grounded (js ''<html>'')))))
       = Some Selecting_section
   \<and> map_option (sections \<circ> state) (step sample_parse fetching_app (Settled (Inr (grounded (js ''<html>'')))))
       = Some fallback_sections"
proof -
  have unparsed: "sample_parse (text_or (grounded (js ''<html>'')) (js ''{}'')) = None"
    by (simp add: grounded_def text_or_def sample_defs)
  then have "sample_parse (text_or (grounded (js ''<html>'')) (js ''{}'')) = None
         \<or> (\<exists>d. sample_parse (text_or (grounded (js ''<html>'')) (js ''{}'')) = Some d
                \<and> get_prop d (js ''sections'') = None)"
    by simp
  from missing_sections_fall_back [OF reachable_fetching _ this]
  have html: "(\<exists>srcs. getExamSections sample_parse (Inr (grounded (js ''<html>'')))
            = Inr \<lparr>info_sections = fallback_sections, info_sources = srcs\<rparr>)"
    "\<exists>a'. step sample_parse fetching_app (Settled (Inr (grounded (js ''<html>'')))) = Some a'
              \<and> status (state a') = Selecting_section
              \<and> sections (state a') = fallback_sections
              \<and> error (state a') = None"
    by (simp_all add: fetching_app_def)
  have act: "status (state fetching_app) = Fetching_sections"
    by (simp add: fetching_app_def)
  have parsed: "sample_parse (text_or (grounded (js ''{}'')) (js ''{}'')) = Some (JObj [])"
    by (simp add: grounded_def text_or_def sample_defs)
  have nokey: "get_prop (JObj []) (js ''sections'') = None"
    by (simp add: get_prop_def)
  from parsed nokey
  have "sample_parse (text_or (grounded (js ''{}'')) (js ''{}'')) = None
         \<or> (\<exists>d. sample_parse (text_or (grounded (js ''{}'')) (js ''{}'')) = Some d
                \<and> get_prop d (js ''sections'') = None)"
    by simp
  from missing_sections_fall_back [OF reachable_fetching act this]
  have "(\<exists>srcs. getExamSections sample_parse (Inr (grounded (js ''{}'')))
            = Inr \<lparr>info_sections = fallback_sections, info_sources = srcs\<rparr>)"
    and "\<exists>a'. step sample_parse fetching_app (Settled (Inr (grounded (js ''{}'')))) = Some a'
              \<and> status (state a') = Selecting_section
              \<and> sections (state a') = fallback_sections
              \<and> error (state a') = None"
    by blast+
  then show ?thesis
    using reachable_fetching act parsed nokey unparsed html
    by (auto simp: fetching_app_def initial_state_def)
qed


text \<open>
  C8, as stated, fails. \<open>generateQuestions\<close> accepts every response whose text parses
  to an array and checks neither its length nor its elements. Asked for 5 questions and
  answered with the text \<open>[{}]\<close>, it returns one question, which has an \<open>id\<close> and
  neither \<open>options\<close> nor \<open>correctAnswer\<close>.
\<close>

theorem accepted_quiz_is_unchecked_counterexample:
  "generateQuestions sample_parse 5 (responded (js ''[{}]'')) = Inr [[(js ''id'', JStr (js ''q-0''))]]
   \<and> int (length [[(js ''id'', JStr (js ''q-0''))]]) \<noteq> 5
   \<and> map_of [(js ''id'', JStr (js ''q-0''))] (js ''options'') = None
   \<and> map_of [(js ''id'', JStr (js ''q-0''))] (js ''correctAnswer'') = None"
  by (simp add: generateQuestions_def responded_def text_or_def spread_def sample_defs decimal.simps)

text \<open>
  C8, amended. For every response that \<open>generateQuestions\<close> accepts, the text of the
  response (or \<open>[]\<close> in its absence) parses to an array, the result has one question
  per element of that array whatever count was requested, and the question at index
  \<open>i\<close> has the \<open>id\<close> \<open>q-i\<close> and otherwise exactly the properties of the element: its
  \<open>options\<close> and \<open>correctAnswer\<close> are those of the response, unchecked.
\<close>

theorem accepted_quiz_mirrors_response:
  assumes "generateQuestions P count outcome = Inr qs"
  shows "\<exists>r questionsData. outcome = Inr r
           \<and> P (text_or r (js ''[]'')) = Some (JArr questionsData)
           \<and> length qs = length questionsData
           \<and> (\<forall>count'. generateQuestions P count' outcome = Inr qs)
           \<and> (\<forall>i<length questionsData.
                 map_of (qs ! i) (js ''id'') = Some (JStr (js ''q-'' @ decimal i))
                 \<and> (\<forall>k. k \<noteq> js ''id'' \<longrightarrow> map_of (qs ! i) k = map_of (spread (questionsData ! i)) k))"
proof -
  from assms obtain r xs where r: "outcome = Inr r" and xs: "P (text_or r (js ''[]'')) = Some (JArr xs)"
    and qs: "qs = map (\<lambda>(index, q). AList.update (js ''id'') (JStr (js ''q-'' @ decimal index)) (spread q))
                    (enumerate 0 xs)"
    by (auto simp: generateQuestions_def split: sum.splits option.splits json.splits)
  have "map_of (qs ! i) (js ''id'') = Some (JStr (js ''q-'' @ decimal i))
        \<and> (\<forall>k. k \<noteq> js ''id'' \<longrightarrow> map_of (qs ! i) k = map_of (spread (xs ! i)) k)"
    if "i < length xs" for i
    using that by (simp add: qs nth_enumerate_eq update_conv')
  moreover from assms have "generateQuestions P count' outcome = Inr qs" for count'
    by (simp add: generateQuestions_def)
  ultimately show ?thesis using r xs qs by simp
qed

theorem accepted_quiz_mirrors_response_witness:
  "generateQuestions sample_parse 5 (responded quiz_text) = Inr sample_questions
   \<and> sample_parse (text_or \<lparr>candidates = None, response_text = Some quiz_text\<rparr> (js ''[]'')) = Some quiz_json
   \<and> length sample_questions = 2
   \<and> map_of (sample_questions ! 1) (js ''id'') = Some (JStr (js ''q-1''))
   \<and> map_of (sample_questions ! 1) (js ''correctAnswer'') = Some (JNum 0)
   \<and> generateQuestions sample_parse 5 (Inr \<lparr>candidates = None, response_text = None\<rparr>) = Inr []"
proof -
  have absent: "generateQuestions sample_parse 5 (Inr \<lparr>candidates = None, response_text = None\<rparr>) = Inr []"
    by (simp add: generateQuestions_def text_or_def sample_defs)
  have gen: "generateQuestions sample_parse 5 (responded quiz_text) = Inr sample_questions"
    by (simp add: generateQuestions_def responded_def text_or_def spread_def sample_defs
        sample_questions_def decimal.simps)
  from accepted_quiz_mirrors_response [OF gen] accepted_quiz_mirrors_response [OF absent] gen absent
  show ?thesis
    by (simp add: sample_questions_def sample_defs text_or_def)
qed


text \<open>
  C9, as stated, fails. \<open>handleFetchSections\<close> returns at once when the trimmed exam
  name is empty. With the name of two spaces, a non-empty string, submitting leaves
  the session idle and starts no lookup.
\<close>

theorem blank_exam_name_counterexample:
  "run sample_parse initial_app [ChangeExamName (js ''  '')] = Some blank_name_app
   \<and> status (state blank_name_app) = Idle
   \<and> examName (state blank_name_app) \<noteq> []
   \<and> step sample_parse blank_name_app SubmitExamForm = Some blank_name_app
   \<and> status (state blank_name_app) \<noteq> Fetching_sections
   \<and> pending blank_name_app = None"
  by (simp add: blank_name_app_def initial_app_def initial_state_def handleFetchSections_def
      trim_def is_js_whitespace_def js_def)

text \<open>
  C9, amended. From status idle, submitting an exam name that is non-empty after
  trimming white space clears the error, sets the status to fetching_sections and
  starts the syllabus lookup for that name; submitting a name that consists of white
  space only leaves the session as it is.
\<close>

theorem submit_exam_name_starts_fetch:
  assumes "status (state a) = Idle"
  shows "step P a SubmitExamForm
         = Some (if trim (examName (state a)) = [] then a
                 else a\<lparr>state := (state a)\<lparr>status := Fetching_sections, error := None\<rparr>,
                        pending := Some (GetExamSections (examName (state a)))\<rparr>)"
  using assms by (simp add: handleFetchSections_def Let_def)

theorem submit_exam_name_starts_fetch_witness:
  "run sample_parse initial_app to_lookup_failed = Some lookup_failed_app
   \<and> status (state lookup_failed_app) = Idle
   \<and> error (state lookup_failed_app) = Some (JStr (js ''Network error''))
   \<and> trim (examName (state lookup_failed_app)) = js ''CC isc2''
   \<and> step sample_parse lookup_failed_app SubmitExamForm = Some fetching_app
   \<and> status (state fetching_app) = Fetching_sections
   \<and> error (state fetching_app) = None
   \<and> pending fetching_app = Some (GetExamSections (js ''CC isc2''))
   \<and> status (state blank_name_app) = Idle
   \<and> trim (examName (state blank_name_app)) = []
   \<and> step sample_parse blank_name_app SubmitExamForm = Some blank_name_app"
proof -
  have idle: "status (state lookup_failed_app) = Idle" "status (state blank_name_app) = Idle"
    by (simp_all add: lookup_failed_app_def blank_name_app_def initial_app_def initial_state_def)
  have trimmed: "trim (examName (state lookup_failed_app)) = js ''CC isc2''"
      "trim (examName (state blank_name_app)) = []"
    by (simp_all add: lookup_failed_app_def blank_name_app_def initial_app_def initial_state_def
        trim_def is_js_whitespace_def js_def)
  from submit_exam_name_starts_fetch [OF idle(1), of sample_parse]
    submit_exam_name_starts_fetch [OF idle(2), of sample_parse] idle trimmed
    run_to_lookup_failed
  show ?thesis
    by (simp add: lookup_failed_app_def blank_name_app_def fetching_app_def initial_app_def
        initial_state_def js_def)
qed

text \<open>
  C10, as stated, fails. The text of the response is replaced by \<open>{}\<close> when it is
  empty. The empty body is not JSON, yet for a response with that body and four
  citations \<open>getExamSections\<close> returns the first three citations, not none.
\<close>

theorem empty_body_keeps_sources_counterexample:
  "response_text (grounded []) = Some []
   \<and> sample_parse [] = None
   \<and> length (grounding_sources (grounded [])) = 4
   \<and> getExamSections sample_parse (Inr (grounded []))
       = Inr \<lparr>info_sections = fallback_sections,
              info_sources = [the (web (cited ''https://a.example'')),
                              the (web (cited ''https://b.example'')),
                              the (web (cited ''https://c.example''))]\<rparr>"
  by (simp add: getExamSections_def grounded_def cited_def grounding_sources_def has_uri_def
      js_index_def text_or_def get_prop_def sample_defs)

text \<open>
  C10, amended. \<open>getExamSections\<close> returns at most 3 sources. They are the first 3 of
  the grounding sources of the response (the \<open>web\<close> entries of the first candidate's
  grounding chunks that have a non-empty \<open>uri\<close>, in their order) when the text of the
  response, or \<open>{}\<close> in place of an absent or empty text, parses to a value other than
  \<open>null\<close>; they are empty when it fails to parse or parses to \<open>null\<close>. In particular a
  body that is not empty and fails to parse yields no sources, whatever citations the
  response carried.
\<close>

theorem sources_first_three_or_none:
  assumes "getExamSections P outcome = Inr info"
  shows "\<exists>r. outcome = Inr r
           \<and> length (info_sources info) \<le> 3
           \<and> info_sources info
               = (if P (text_or r (js ''{}'')) = None \<or> P (text_or r (js ''{}'')) = Some JNull
                  then [] else take 3 (grounding_sources r))
           \<and> (\<forall>t. response_text r = Some t \<and> t \<noteq> [] \<and> P t = None \<longrightarrow> info_sources info = [])
           \<and> (response_text r = None \<or> response_text r = Some [] \<longrightarrow>
                 text_or r (js ''{}'') = js ''{}'')"
proof -
  from assms obtain r where r: "outcome = Inr r"
    by (cases outcome) (simp_all add: getExamSections_def)
  from assms r have srcs: "info_sources info
               = (if P (text_or r (js ''{}'')) = None \<or> P (text_or r (js ''{}'')) = Some JNull
                  then [] else take 3 (grounding_sources r))"
    by (auto simp: getExamSections_def Let_def split: option.splits if_splits)
  then have "length (info_sources info) \<le> 3"
    by simp
  moreover have "info_sources info = []" if "response_text r = Some t \<and> t \<noteq> [] \<and> P t = None" for t
    using that srcs by (simp add: text_or_def)
  moreover have "text_or r (js ''{}'') = js ''{}''"
    if "response_text r = None \<or> response_text r = Some []"
    using that by (auto simp: text_or_def)
  ultimately show ?thesis using r srcs by blast
qed

theorem sources_first_three_or_none_witness:
  "getExamSections sample_parse (Inr (grounded syllabus_text))
     = Inr \<lparr>info_sections = JArr [JStr (js ''Security Principles''), JStr (js ''Access Controls'')],
            info_sources = [the (web (cited ''https://a.example'')),
                            the (web (cited ''https://b.example'')),
                            the (web (cited ''https://c.example''))]\<rparr>
   \<and> grounding_sources (grounded syllabus_text)
       = [the (web (cited ''https://a.example'')), the (web (cited ''https://b.example'')),
          the (web (cited ''https://c.example'')), the (web (cited ''https://d.example''))]
   \<and> sample_parse (text_or (grounded syllabus_text) (js ''{}'')) = Some syllabus_json
   \<and> response_text (grounded (js ''<html>'')) = Some (js ''<html>'')
   \<and> js ''<html>'' \<noteq> []
   \<and> sample_parse (js ''<html>'') = None
   \<and> length (grounding_sources (grounded (js ''<html>''))) = 4
   \<and> getExamSections sample_parse (Inr (grounded (js ''<html>'')))
       = Inr \<lparr>info_sections = fallback_sections, info_sources = []\<rparr>"
proof -
  have ok: "getExamSections sample_parse (Inr (grounded syllabus_text))
     = Inr \<lparr>info_sections = JArr [JStr (js ''Security Principles''), JStr (js ''Access Controls'')],
            info_sources = [the (web (cited ''https://a.example'')),
                            the (web (cited ''https://b.example'')),
                            the (web (cited ''https://c.example''))]\<rparr>"
    by (simp add: getExamSections_def grounded_def cited_def grounding_sources_def has_uri_def
        js_index_def text_or_def get_prop_def sample_defs)
  have all: "grounding_sources (grounded t)
       = [the (web (cited ''https://a.example'')), the (web (cited ''https://b.example'')),
          the (web (cited ''https://c.example'')), the (web (cited ''https://d.example''))]" for t
    by (simp add: grounded_def cited_def grounding_sources_def has_uri_def js_index_def js_def)
  have parsed: "sample_parse (text_or (grounded syllabus_text) (js ''{}'')) = Some syllabus_json"
    by (simp add: grounded_def text_or_def sample_defs)
  have bad: "response_text (grounded (js ''<html>'')) = Some (js ''<html>'')"
      "js ''<html>'' \<noteq> []" "sample_parse (js ''<html>'') = None"
    by (simp_all add: grounded_def sample_defs)
  have fails: "getExamSections sample_parse (Inr (grounded (js ''<html>'')))
       = Inr \<lparr>info_sections = fallback_sections, info_sources = []\<rparr>"
    using bad by (simp add: getExamSections_def text_or_def grounded_def)
  from sources_first_three_or_none [OF ok] sources_first_three_or_none [OF fails]
    ok all parsed bad fails
  show ?thesis by simp
qed

end
